theory Spec2Isabelle
  imports Complex_Main "HOL-Library.Word"
begin

unbundle bit_operations_syntax

section \<open>Python values\<close>

text \<open>
  The drivers are Python: their integers are unbounded and are modelled as \<^typ>\<open>int\<close>, on
  which \<open>AND\<close>, \<open>OR\<close>, \<open>NOT\<close>, \<^const>\<open>push_bit\<close> and \<^const>\<open>drop_bit\<close> are Python's
  \<^verbatim>\<open>&\<close>, \<^verbatim>\<open>|\<close>, \<^verbatim>\<open>~\<close>, \<^verbatim>\<open><<\<close> and \<^verbatim>\<open>>>\<close> (two's complement with an unbounded sign).
  An element of a \<^verbatim>\<open>bytes\<close> or \<^verbatim>\<open>bytearray\<close> object is an 8-bit word.
\<close>

type_synonym byte = "8 word"

datatype exn = ValueError | OSError | IndexError

section \<open>Constants of \<^verbatim>\<open>sparkfun_qwiictwist.py\<close>\<close>

definition QWIIC_TWIST_ADDR :: int where "QWIIC_TWIST_ADDR = 0x3F"
definition QWIIC_TWIST_ADDR_ALT :: int where "QWIIC_TWIST_ADDR_ALT = 0x3E"
definition QWIIC_TWIST_ID :: int where "QWIIC_TWIST_ID = 0x5C"

definition BUTTON_CLICKED_BIT :: nat where "BUTTON_CLICKED_BIT = 2"
definition BUTTON_PRESSED_BIT :: nat where "BUTTON_PRESSED_BIT = 1"
definition ENCODER_MOVED_BIT :: nat where "ENCODER_MOVED_BIT = 0"

definition TWIST_ID :: int where "TWIST_ID = 0x00"
definition TWIST_STATUS :: int where "TWIST_STATUS = 0x01"
definition TWIST_VERSION :: int where "TWIST_VERSION = 0x02"
definition TWIST_ENABLE_INTS :: int where "TWIST_ENABLE_INTS = 0x04"
definition TWIST_COUNT :: int where "TWIST_COUNT = 0x05"
definition TWIST_DIFFERENCE :: int where "TWIST_DIFFERENCE = 0x07"
definition TWIST_LAST_ENCODER_EVENT :: int where "TWIST_LAST_ENCODER_EVENT = 0x09"
definition TWIST_LAST_BUTTON_EVENT :: int where "TWIST_LAST_BUTTON_EVENT = 0x0B"
definition TWIST_RED :: int where "TWIST_RED = 0x0D"
definition TWIST_GREEN :: int where "TWIST_GREEN = 0x0E"
definition TWIST_BLUE :: int where "TWIST_BLUE = 0x0F"
definition TWIST_CONNECT_RED :: int where "TWIST_CONNECT_RED = 0x10"
definition TWIST_CONNECT_GREEN :: int where "TWIST_CONNECT_GREEN = 0x12"
definition TWIST_CONNECT_BLUE :: int where "TWIST_CONNECT_BLUE = 0x14"
definition TWIST_TURN_INT_TIMEOUT :: int where "TWIST_TURN_INT_TIMEOUT = 0x16"
definition TWIST_CHANGE_ADDRESS :: int where "TWIST_CHANGE_ADDRESS = 0x18"

section \<open>Signed reconstruction\<close>

text \<open>
  \<^verbatim>\<open>_signed_int16(value)\<close>: \<^verbatim>\<open>result = value; if result & (1 << 15): result -= 1 << 16\<close>.
\<close>

definition signed_int16 :: "int \<Rightarrow> int" where
  "signed_int16 v =
     (let result = v in
      if result AND push_bit 15 1 \<noteq> 0 then result - push_bit 16 1 else result)"

section \<open>The world outside the drivers\<close>

text \<open>
  Both drivers talk to a peripheral through \<^verbatim>\<open>adafruit_bus_device.i2c_device.I2CDevice\<close>
  and wait with \<^verbatim>\<open>time.sleep\<close>. Neither the library nor the hardware belongs to the
  repository; this section models them as the transport contract of the specification
  describes them, with the peripheral as a register file.
\<close>

text \<open>
  Modelled from the spec: the peripheral behind an address. A register is selected by the
  first byte of a write, the bytes after it are stored at that offset and the following
  ones, and a read returns the bytes from the selected offset on.
\<close>

record peripheral =
  regs :: "byte \<Rightarrow> byte"
  pointer :: byte

fun store :: "byte \<Rightarrow> byte list \<Rightarrow> (byte \<Rightarrow> byte) \<Rightarrow> (byte \<Rightarrow> byte)" where
  "store a [] r = r"
| "store a (b # bs) r = store (a + 1) bs (r(a := b))"

definition receive :: "byte list \<Rightarrow> peripheral \<Rightarrow> peripheral" where
  "receive buf p =
     (case buf of [] \<Rightarrow> p | a # bs \<Rightarrow> \<lparr>regs = store a bs (regs p), pointer = a\<rparr>)"

definition transmit :: "nat \<Rightarrow> peripheral \<Rightarrow> byte list" where
  "transmit n p = map (\<lambda>i. regs p (pointer p + of_nat i)) [0..<n]"

text \<open>
  What a run leaves behind: the transfers and waits in order, the lines printed, and the
  \<^verbatim>\<open>bytearray\<close> objects that a client keeps in an attribute (an object is its index in
  \<open>heap\<close>, so two references are the same object iff they are the same index). A
  \<^verbatim>\<open>bytearray\<close> that stays local to one call is a plain value.
\<close>

datatype event = Probe int | Write int "byte list" | ReadInto int nat | Sleep rat

datatype line = Text string | Err exn | DebugRead int "int list" | DebugWrite int int

record world =
  peripherals :: "int \<Rightarrow> peripheral option"
  trace :: "event list"
  stdout :: "line list"
  heap :: "byte list list"

text \<open>
  A Python call either returns a value or raises; what it did to the world before raising
  stays done.
\<close>

type_synonym 'a io = "world \<Rightarrow> (exn + 'a) \<times> world"

definition io_return :: "'a \<Rightarrow> 'a io" where
  "io_return x w = (Inr x, w)"

definition io_raise :: "exn \<Rightarrow> 'a io" where
  "io_raise e w = (Inl e, w)"

definition io_bind :: "'a io \<Rightarrow> ('a \<Rightarrow> 'b io) \<Rightarrow> 'b io" where
  "io_bind m f w = (case m w of (Inl e, w') \<Rightarrow> (Inl e, w') | (Inr x, w') \<Rightarrow> f x w')"

definition io_when :: "bool \<Rightarrow> unit io \<Rightarrow> unit io" where
  "io_when c m = (if c then m else io_return ())"

text \<open>\<^verbatim>\<open>try: m except ValueError as err: h(err)\<close>; any other exception passes through.\<close>

definition except_ValueError :: "'a io \<Rightarrow> (exn \<Rightarrow> 'a io) \<Rightarrow> 'a io" where
  "except_ValueError m h w =
     (case m w of
        (Inl err, w') \<Rightarrow> if err = ValueError then h err w' else (Inl err, w')
      | (Inr x, w') \<Rightarrow> (Inr x, w'))"

definition emit :: "event \<Rightarrow> world \<Rightarrow> world" where
  "emit e w = w\<lparr>trace := trace w @ [e]\<rparr>"

definition print :: "line \<Rightarrow> unit io" where
  "print l w = (Inr (), w\<lparr>stdout := stdout w @ [l]\<rparr>)"

text \<open>\<^verbatim>\<open>time.sleep(seconds)\<close> raises \<^verbatim>\<open>ValueError\<close> on a negative length.\<close>

definition sleep :: "rat \<Rightarrow> unit io" where
  "sleep seconds w = (if seconds < 0 then (Inl ValueError, w) else (Inr (), emit (Sleep seconds) w))"

text \<open>
  \<^verbatim>\<open>bytes(list)\<close> raises \<^verbatim>\<open>ValueError\<close> unless every element is in \<^verbatim>\<open>range(256)\<close>;
  \<^verbatim>\<open>bytearray(n)\<close> is \<open>n\<close> zero bytes; \<^verbatim>\<open>b[i]\<close> raises \<^verbatim>\<open>IndexError\<close> out of range.
\<close>

definition bytes :: "int list \<Rightarrow> byte list io" where
  "bytes xs =
     (if list_all (\<lambda>x. 0 \<le> x \<and> x < 256) xs then io_return (map word_of_int xs)
      else io_raise ValueError)"

definition bytearray :: "nat \<Rightarrow> byte list" where
  "bytearray n = replicate n 0"

definition getitem :: "byte list \<Rightarrow> nat \<Rightarrow> int io" where
  "getitem b i = (if i < length b then io_return (uint (b ! i)) else io_raise IndexError)"

text \<open>
  Modelled from the spec: the bus device library. Constructing a device probes the address
  and raises \<^verbatim>\<open>ValueError\<close> when nothing answers; \<^verbatim>\<open>write\<close> and \<^verbatim>\<open>readinto\<close> raise
  \<^verbatim>\<open>OSError\<close> when nothing answers. \<^verbatim>\<open>readinto\<close> fills the buffer it is given and keeps
  its length. The lock that \<^verbatim>\<open>with device:\<close> takes and releases is free whenever a
  single-threaded caller asks for it, and is not recorded.
\<close>

record I2CDevice =
  bus :: nat
  device_address :: int

definition I2CDevice_init :: "nat \<Rightarrow> int \<Rightarrow> I2CDevice io" where
  "I2CDevice_init i2c_bus address w =
     (let w' = emit (Probe address) w in
      case peripherals w address of
        None \<Rightarrow> (Inl ValueError, w')
      | Some p \<Rightarrow> (Inr \<lparr>bus = i2c_bus, device_address = address\<rparr>, w'))"

definition device_write :: "I2CDevice \<Rightarrow> byte list \<Rightarrow> unit io" where
  "device_write dev buf w =
     (let a = device_address dev; w' = emit (Write a buf) w in
      case peripherals w a of
        None \<Rightarrow> (Inl OSError, w')
      | Some p \<Rightarrow> (Inr (), w'\<lparr>peripherals := (peripherals w)(a \<mapsto> receive buf p)\<rparr>))"

definition device_readinto :: "I2CDevice \<Rightarrow> byte list \<Rightarrow> byte list io" where
  "device_readinto dev buf w =
     (let a = device_address dev; w' = emit (ReadInto a (length buf)) w in
      case peripherals w a of
        None \<Rightarrow> (Inl OSError, w')
      | Some p \<Rightarrow> (Inr (transmit (length buf) p), w'))"

section \<open>The rotary encoder client\<close>

record Sparkfun_QwiicTwist =
  device :: I2CDevice
  i2c :: nat
  debug :: bool

text \<open>\<^verbatim>\<open>__init__(self, i2c, address=QWIIC_TWIST_ADDR, debug=False)\<close>\<close>

definition Sparkfun_QwiicTwist_init :: "nat \<Rightarrow> int \<Rightarrow> bool \<Rightarrow> Sparkfun_QwiicTwist io" where
  "Sparkfun_QwiicTwist_init i2c_bus address dbg =
     io_bind (I2CDevice_init i2c_bus address) (\<lambda>d.
     io_return \<lparr>device = d, i2c = i2c_bus, debug = dbg\<rparr>)"

subsection \<open>Register primitives\<close>

definition read_register8 :: "Sparkfun_QwiicTwist \<Rightarrow> int \<Rightarrow> int io" where
  "read_register8 self addr =
     io_bind (bytes [addr AND 0xFF]) (\<lambda>sel.
     io_bind (device_write (device self) sel) (\<lambda>_.
     io_bind (device_readinto (device self) (bytearray 1)) (\<lambda>result.
     io_bind (io_when (debug self) (print (DebugRead addr (map uint result)))) (\<lambda>_.
     getitem result 0))))"

definition write_register8 :: "Sparkfun_QwiicTwist \<Rightarrow> int \<Rightarrow> int \<Rightarrow> unit io" where
  "write_register8 self addr v =
     io_bind (bytes [addr AND 0xFF, v AND 0xFF]) (\<lambda>buf.
     io_bind (device_write (device self) buf) (\<lambda>_.
     io_when (debug self) (print (DebugWrite addr v))))"

definition read_register16 :: "Sparkfun_QwiicTwist \<Rightarrow> int \<Rightarrow> int io" where
  "read_register16 self addr =
     io_bind (bytes [addr AND 0xFF]) (\<lambda>sel.
     io_bind (device_write (device self) sel) (\<lambda>_.
     io_bind (device_readinto (device self) (bytearray 2)) (\<lambda>result.
     io_bind (io_when (debug self) (print (DebugRead addr (map uint result)))) (\<lambda>_.
     io_bind (getitem result 1) (\<lambda>hi.
     io_bind (getitem result 0) (\<lambda>lo.
     io_return (push_bit 8 hi OR lo)))))))"

definition write_register16 :: "Sparkfun_QwiicTwist \<Rightarrow> int \<Rightarrow> int \<Rightarrow> unit io" where
  "write_register16 self addr v =
     io_bind (bytes [addr AND 0xFF, v AND 0xFF, drop_bit 8 v AND 0xFF]) (\<lambda>buf.
     io_bind (device_write (device self) buf) (\<lambda>_.
     io_when (debug self)
       (io_bind (print (DebugWrite addr (v AND 0xFF))) (\<lambda>_.
        print (DebugWrite addr (drop_bit 8 v AND 0xFF))))))"

definition write_register24 :: "Sparkfun_QwiicTwist \<Rightarrow> int \<Rightarrow> int \<Rightarrow> unit io" where
  "write_register24 self addr v =
     io_bind (bytes [addr AND 0xFF, drop_bit 16 v AND 0xFF, drop_bit 8 v AND 0xFF, v AND 0xFF])
       (\<lambda>buf.
     io_bind (device_write (device self) buf) (\<lambda>_.
     io_when (debug self)
       (io_bind (print (DebugWrite addr (drop_bit 16 v AND 0xFF))) (\<lambda>_.
        io_bind (print (DebugWrite addr (drop_bit 8 v AND 0xFF))) (\<lambda>_.
        print (DebugWrite addr (v AND 0xFF)))))))"

subsection \<open>Properties and methods\<close>

text \<open>
  \<^verbatim>\<open>str(n)\<close> of an integer: its decimal digits, after a minus sign when it is negative.
\<close>

definition digit :: "nat \<Rightarrow> char" where
  "digit d = ''0123456789'' ! (d mod 10)"

function str_nat :: "nat \<Rightarrow> string" where
  "str_nat n = (if n < 10 then [digit n] else str_nat (n div 10) @ [digit (n mod 10)])"
  by pat_completeness auto
termination
  by (relation "measure (\<lambda>n. n)") auto

declare str_nat.simps [simp del]

definition str :: "int \<Rightarrow> string" where
  "str n = (if n < 0 then CHR ''-'' # str_nat (nat (- n)) else str_nat (nat n))"

text \<open>
  Decimal notation, read from the left: a numeral is a non-empty string of the characters
  \<open>0\<close> to \<open>9\<close> (codes 48 to 57) that starts with \<open>0\<close> only when it is \<open>0\<close> itself, and it
  denotes the number that its digits give in base ten. This is the notation that the
  result of \<^verbatim>\<open>str\<close> is measured against.
\<close>

definition is_digit :: "char \<Rightarrow> bool" where
  "is_digit c = (48 \<le> (of_char c :: nat) \<and> (of_char c :: nat) \<le> 57)"

definition digit_value :: "char \<Rightarrow> nat" where
  "digit_value c = of_char c - 48"

definition decimal_value :: "string \<Rightarrow> nat" where
  "decimal_value s = foldl (\<lambda>acc c. 10 * acc + digit_value c) 0 s"

definition decimal_numeral :: "string \<Rightarrow> bool" where
  "decimal_numeral s = (s \<noteq> [] \<and> list_all is_digit s \<and> (hd s = CHR ''0'' \<longrightarrow> s = ''0''))"

definition version :: "Sparkfun_QwiicTwist \<Rightarrow> string io" where
  "version self =
     io_bind (read_register16 self TWIST_VERSION) (\<lambda>v.
     let major = v AND 0xFF;
         minor = drop_bit 8 v AND 0xFF
     in io_return (''v'' @ str major @ ''.'' @ str minor))"

definition moved :: "Sparkfun_QwiicTwist \<Rightarrow> bool io" where
  "moved self =
     io_bind (read_register8 self TWIST_STATUS) (\<lambda>status.
     let flag = status AND push_bit ENCODER_MOVED_BIT 1 in
     io_bind (write_register8 self TWIST_STATUS (status AND NOT (push_bit ENCODER_MOVED_BIT 1)))
       (\<lambda>_.
     io_return (flag \<noteq> 0)))"

definition pressed :: "Sparkfun_QwiicTwist \<Rightarrow> bool io" where
  "pressed self =
     io_bind (read_register8 self TWIST_STATUS) (\<lambda>status.
     let flag = status AND push_bit BUTTON_PRESSED_BIT 1 in
     io_bind (write_register8 self TWIST_STATUS (status AND NOT (push_bit BUTTON_PRESSED_BIT 1)))
       (\<lambda>_.
     io_return (flag \<noteq> 0)))"

definition clicked :: "Sparkfun_QwiicTwist \<Rightarrow> bool io" where
  "clicked self =
     io_bind (read_register8 self TWIST_STATUS) (\<lambda>status.
     let flag = status AND push_bit BUTTON_CLICKED_BIT 1 in
     io_bind (write_register8 self TWIST_STATUS (status AND NOT (push_bit BUTTON_CLICKED_BIT 1)))
       (\<lambda>_.
     io_return (flag \<noteq> 0)))"

definition difference :: "Sparkfun_QwiicTwist \<Rightarrow> int io" where
  "difference self =
     io_bind (read_register16 self TWIST_DIFFERENCE) (\<lambda>v.
     let diff = signed_int16 v in
     io_bind (write_register16 self TWIST_DIFFERENCE 0) (\<lambda>_.
     io_return diff))"

definition set_color :: "Sparkfun_QwiicTwist \<Rightarrow> int \<Rightarrow> int \<Rightarrow> int \<Rightarrow> unit io" where
  "set_color self red_value green_value blue_value =
     write_register24 self TWIST_RED
       (push_bit 16 (red_value AND 0xFF) OR push_bit 8 (green_value AND 0xFF)
          OR (blue_value AND 0xFF))"

text \<open>The \<^verbatim>\<open>count\<close> property: its getter and its setter.\<close>

definition count :: "Sparkfun_QwiicTwist \<Rightarrow> int io" where
  "count self =
     io_bind (read_register16 self TWIST_COUNT) (\<lambda>v.
     io_return (signed_int16 v))"

definition count_setter :: "Sparkfun_QwiicTwist \<Rightarrow> int \<Rightarrow> unit io" where
  "count_setter self v = write_register16 self TWIST_COUNT v"

text \<open>
  \<^verbatim>\<open>change_address\<close> is the one method that assigns to \<^verbatim>\<open>self\<close>: it returns its result
  together with the client as the call leaves it. An exception leaves the client as it was.
\<close>

definition change_address ::
  "Sparkfun_QwiicTwist \<Rightarrow> int \<Rightarrow> (bool \<times> Sparkfun_QwiicTwist) io" where
  "change_address self new_address =
     (if new_address < 8 \<or> new_address > 119 then
        io_bind (print (Text ''ERROR: Address outside 8-119 range'')) (\<lambda>_.
        io_return (False, self))
      else
        io_bind (write_register8 self TWIST_CHANGE_ADDRESS new_address) (\<lambda>_.
        io_bind (sleep 1) (\<lambda>_.
        except_ValueError
          (io_bind (I2CDevice_init (i2c self) new_address) (\<lambda>d.
           io_return (True, self\<lparr>device := d\<rparr>)))
          (\<lambda>err.
           io_bind (print (Text ''Address Change Failure'')) (\<lambda>_.
           io_bind (print (Err err)) (\<lambda>_.
           io_return (False, self)))))))"

section \<open>The motion accessory client\<close>





text \<open>
  \<^verbatim>\<open>__init__(self, i2c, address=0x52, i2c_read_delay=0.002)\<close>. Delays are seconds. The
  docstring asks the caller for a delay of at least 200 microseconds; the constructor
  stores the delay it is given.
\<close>

definition WiiChuckBase_address_default :: int where
  "WiiChuckBase_address_default = 0x52"








section \<open>A test bench\<close>

text \<open>
  Concrete worlds and clients on which the theorems below are run: a bus with the given
  peripherals and nothing recorded yet, a peripheral with the given register contents, and
  the clients that \<^verbatim>\<open>Sparkfun_QwiicTwist(i2c, address)\<close> and
  \<^verbatim>\<open>WiiChuckBase(i2c, address, i2c_read_delay)\<close> return on that bus.
\<close>

definition bench :: "(int \<Rightarrow> peripheral option) \<Rightarrow> world" where
  "bench ps = \<lparr>peripherals = ps, trace = [], stdout = [], heap = []\<rparr>"

definition fresh :: "(byte \<Rightarrow> byte) \<Rightarrow> peripheral" where
  "fresh r = \<lparr>regs = r, pointer = 0\<rparr>"


definition twist_at :: "int \<Rightarrow> Sparkfun_QwiicTwist" where
  "twist_at a = \<lparr>device = \<lparr>bus = 0, device_address = a\<rparr>, i2c = 0, debug = False\<rparr>"

section \<open>Signed reconstruction: properties\<close>

lemma and_bit15_iff: "(v AND push_bit 15 1 \<noteq> 0) = bit (v::int) 15"
  using and_exp_eq_0_iff_not_bit [of v 15] by simp

lemma and_bit15: "0 \<le> v \<Longrightarrow> v < 65536 \<Longrightarrow> (v AND push_bit 15 1 \<noteq> 0) = (32768 \<le> (v::int))"
proof -
  assume a: "0 \<le> v" "v < 65536"
  have "(v AND push_bit 15 1 \<noteq> 0) = bit v 15"
    by (rule and_bit15_iff)
  also have "\<dots> = odd (v div 32768)"
    by (simp add: bit_iff_odd)
  also have "\<dots> = (32768 \<le> v)"
  proof (cases "32768 \<le> v")
    case True
    with a have "v div 32768 = 1" by simp
    with True show ?thesis by simp
  next
    case False
    with a have "v div 32768 = 0" by simp
    with False show ?thesis by simp
  qed
  finally show ?thesis .
qed

text \<open>
  C4. For every 16-bit value \<open>v\<close> in \<open>[0, 65535]\<close>, the signed reconstruction returns \<open>v\<close>
  if \<open>v < 32768\<close> and \<open>v - 65536\<close> otherwise, that is, it subtracts \<open>2 ^ 16\<close> exactly when
  bit 15 is set; the result lies in \<open>[-32768, 32767]\<close>.
\<close>

theorem signed_int16_decode:
  assumes "0 \<le> v" and "v \<le> 65535"
  shows "signed_int16 v = (if v < 32768 then v else v - 65536)
    \<and> signed_int16 v = (if bit v 15 then v - 2 ^ 16 else v)
    \<and> - 32768 \<le> signed_int16 v \<and> signed_int16 v \<le> 32767"
proof -
  from assms have lt: "v < 65536" by simp
  have b: "(v AND push_bit 15 1 \<noteq> 0) = (32768 \<le> v)"
    using and_bit15 [OF assms(1) lt] .
  have 1: "signed_int16 v = (if v < 32768 then v else v - 65536)"
    using b by (auto simp add: signed_int16_def Let_def)
  have "bit v 15 = (v AND push_bit 15 1 \<noteq> 0)"
    by (rule and_bit15_iff [symmetric])
  with b have 2: "signed_int16 v = (if bit v 15 then v - 2 ^ 16 else v)"
    using 1 by auto
  have 3: "- 32768 \<le> signed_int16 v" using 1 assms by (auto split: if_splits)
  have 4: "signed_int16 v \<le> 32767" using 1 assms by (auto split: if_splits)
  from 1 2 3 4 show ?thesis by blast
qed

theorem signed_int16_decode_witness:
  "(0::int) \<le> 40000 \<and> (40000::int) \<le> 65535 \<and> signed_int16 40000 = - 25536"
  using signed_int16_decode [of 40000] by simp

section \<open>Bytes and bits\<close>

lemma and_255: "(x::int) AND 255 = take_bit 8 x"
  by (simp add: take_bit_eq_mask mask_eq_exp_minus_1)

lemma byte_ok: "0 \<le> (x::int) AND 255 \<and> x AND 255 < 256"
  using take_bit_int_less_exp [of 8 x] by (simp add: and_255)

lemma word_of_and_255: "(word_of_int (x AND 255) :: byte) = word_of_int x"
  by (rule bit_word_eqI) (auto simp add: and_255 bit_simps)

lemma uint_word_of_and_255: "uint (word_of_int x :: byte) = x AND 255"
  by (simp add: and_255 uint_word_of_int take_bit_eq_mod)

lemma bytes_1: "bytes [a AND 0xFF] w = (Inr [word_of_int a], w)"
  by (simp add: bytes_def io_return_def byte_ok word_of_and_255)

lemma bytes_2: "bytes [a AND 0xFF, b AND 0xFF] w = (Inr [word_of_int a, word_of_int b], w)"
  by (simp add: bytes_def io_return_def byte_ok word_of_and_255)

lemma bytes_3:
  "bytes [a AND 0xFF, b AND 0xFF, c AND 0xFF] w = (Inr [word_of_int a, word_of_int b, word_of_int c], w)"
  by (simp add: bytes_def io_return_def byte_ok word_of_and_255)

lemma bytes_4:
  "bytes [a AND 0xFF, b AND 0xFF, c AND 0xFF, d AND 0xFF] w =
     (Inr [word_of_int a, word_of_int b, word_of_int c, word_of_int d], w)"
  by (simp add: bytes_def io_return_def byte_ok word_of_and_255)

lemma read_register8_run:
  assumes "peripherals w (device_address (device self)) = Some p"
  shows "read_register8 self addr w =
    (Inr (uint (regs p (word_of_int addr))),
     w\<lparr>peripherals := (peripherals w)(device_address (device self) \<mapsto>
          \<lparr>regs = regs p, pointer = word_of_int addr\<rparr>),
       trace := trace w @ [Write (device_address (device self)) [word_of_int addr],
                           ReadInto (device_address (device self)) 1],
       stdout := stdout w @ (if debug self then [DebugRead addr [uint (regs p (word_of_int addr))]] else [])\<rparr>)"
  using assms
  by (simp add: read_register8_def io_bind_def bytes_1 device_write_def device_readinto_def
      emit_def receive_def transmit_def bytearray_def io_when_def print_def io_return_def
      getitem_def Let_def)

lemma write_register8_run:
  assumes "peripherals w (device_address (device self)) = Some p"
  shows "write_register8 self addr v w =
    (Inr (),
     w\<lparr>peripherals := (peripherals w)(device_address (device self) \<mapsto>
          \<lparr>regs = (regs p)(word_of_int addr := word_of_int v), pointer = word_of_int addr\<rparr>),
       trace := trace w @ [Write (device_address (device self)) [word_of_int addr, word_of_int v]],
       stdout := stdout w @ (if debug self then [DebugWrite addr v] else [])\<rparr>)"
  using assms
  by (simp add: write_register8_def io_bind_def bytes_2 device_write_def
      emit_def receive_def io_when_def print_def io_return_def Let_def)

lemma flag_test: "(uint (s::byte) AND 2 ^ k \<noteq> 0) = bit s k"
  using and_exp_eq_0_iff_not_bit [of "uint s" k]
  by (auto simp add: bit_uint_iff dest: bit_imp_le_length)

lemma flag_clear: "(word_of_int (uint (s::byte) AND NOT (2 ^ k)) :: byte) = s AND NOT (2 ^ k)"
  by (rule bit_word_eqI) (auto simp add: bit_simps)

lemma io_bind_eq:
  "io_bind m f = (\<lambda>w. case m w of (Inl e, w') \<Rightarrow> (Inl e, w') | (Inr x, w') \<Rightarrow> f x w')"
  by (rule ext) (simp add: io_bind_def)

lemma bytes_run:
  "list_all (\<lambda>x. 0 \<le> x \<and> x < 256) xs \<Longrightarrow> bytes xs w = (Inr (map word_of_int xs), w)"
  by (simp add: bytes_def io_return_def)

lemma clear_flag_run:
  assumes present: "peripherals w (device_address (device self)) = Some p"
    and status: "regs p 1 = s"
  shows "io_bind (read_register8 self TWIST_STATUS) (\<lambda>status.
           let flag = status AND push_bit k 1 in
           io_bind (write_register8 self TWIST_STATUS (status AND NOT (push_bit k 1))) (\<lambda>_.
           io_return (flag \<noteq> 0))) w =
    (Inr (bit s k),
     w\<lparr>peripherals := (peripherals w)(device_address (device self) \<mapsto>
          \<lparr>regs = (regs p)(1 := s AND NOT (push_bit k 1)), pointer = 1\<rparr>),
       trace := trace w @
         [Write (device_address (device self)) [1],
          ReadInto (device_address (device self)) 1,
          Write (device_address (device self)) [1, s AND NOT (push_bit k 1)]],
       stdout := stdout w @
         (if debug self
          then [DebugRead 1 [uint s], DebugWrite 1 (uint s AND NOT (push_bit k 1))]
          else [])\<rparr>)"
  using assms
  by (simp add: read_register8_def write_register8_def io_bind_eq bytes_run byte_ok
      word_of_and_255
      device_write_def device_readinto_def emit_def receive_def transmit_def bytearray_def
      io_when_def print_def io_return_def getitem_def Let_def TWIST_STATUS_def
      flag_test flag_clear)

section \<open>Sixteen-bit values\<close>

lemma signed_int16_cases:
  assumes "0 \<le> v" and "v < 65536"
  shows "signed_int16 v = (if v < 32768 then v else v - 65536)"
  using and_bit15 [OF assms] by (auto simp add: signed_int16_def Let_def)

lemma signed_int16_signed_take_bit:
  assumes "0 \<le> v" and "v < 65536"
  shows "signed_int16 v = signed_take_bit 15 v"
proof (cases "v < 32768")
  case True
  with assms have "take_bit 16 (v + 32768) = v + 32768"
    by (simp add: take_bit_int_eq_self)
  with True assms show ?thesis
    by (simp add: signed_int16_cases signed_take_bit_eq_take_bit_shift)
next
  case False
  with assms have "(v + 32768) mod 65536 = v + 32768 - 65536"
    by (simp add: mod_pos_geq)
  with False assms show ?thesis
    by (simp add: signed_int16_cases signed_take_bit_eq_take_bit_shift take_bit_eq_mod)
qed

lemma signed_int16_uint: "signed_int16 (uint (x :: 16 word)) = sint x"
proof -
  have "uint x < 65536" using uint_bounded [of x] by simp
  then show ?thesis
    by (simp add: signed_int16_signed_take_bit sint_uint)
qed

lemma assemble16: "push_bit 8 (uint (hi::byte)) OR uint (lo::byte) = uint (word_cat hi lo :: 16 word)"
  by (rule bit_eqI) (auto simp add: bit_simps dest: bit_imp_le_length)

lemma split16:
  "push_bit 8 (uint (word_of_int (drop_bit 8 v) :: byte)) OR uint (word_of_int v :: byte) = take_bit 16 v"
  by (rule bit_eqI) (auto simp add: bit_simps uint_word_of_int_eq)

lemma roundtrip16:
  assumes "- 32768 \<le> v" and "v \<le> 32767"
  shows "signed_int16 (push_bit 8 (uint (word_of_int (drop_bit 8 v) :: byte)) OR uint (word_of_int v :: byte)) = v"
proof -
  have "signed_int16 (take_bit 16 v) = signed_int16 (uint (word_of_int v :: 16 word))"
    by (simp add: uint_word_of_int_eq)
  also have "\<dots> = sint (word_of_int v :: 16 word)"
    by (rule signed_int16_uint)
  also have "\<dots> = signed_take_bit 15 v"
    by (simp add: sint_uint uint_word_of_int_eq signed_take_bit_take_bit)
  also have "\<dots> = v"
    using assms by (simp add: signed_take_bit_int_eq_self)
  finally show ?thesis by (simp add: split16)
qed

section \<open>Status flags\<close>

lemmas run_simps = io_bind_eq bytes_run byte_ok word_of_and_255
  device_write_def device_readinto_def emit_def receive_def transmit_def bytearray_def
  io_when_def print_def io_return_def io_raise_def getitem_def Let_def

lemma moved_run:
  assumes "peripherals w (device_address (device self)) = Some p" and "regs p 1 = s"
  shows "moved self w =
    (Inr (bit s 0),
     w\<lparr>peripherals := (peripherals w)(device_address (device self) \<mapsto>
          \<lparr>regs = (regs p)(1 := unset_bit 0 s), pointer = 1\<rparr>),
       trace := trace w @
         [Write (device_address (device self)) [1],
          ReadInto (device_address (device self)) 1,
          Write (device_address (device self)) [1, unset_bit 0 s]],
       stdout := stdout w @
         (if debug self
          then [DebugRead 1 [uint s], DebugWrite 1 (uint s AND NOT 1)]
          else [])\<rparr>)"
  using clear_flag_run [OF assms, of 0]
  by (simp add: moved_def ENCODER_MOVED_BIT_def unset_bit_eq_and_not)

lemma pressed_run:
  assumes "peripherals w (device_address (device self)) = Some p" and "regs p 1 = s"
  shows "pressed self w =
    (Inr (bit s 1),
     w\<lparr>peripherals := (peripherals w)(device_address (device self) \<mapsto>
          \<lparr>regs = (regs p)(1 := unset_bit 1 s), pointer = 1\<rparr>),
       trace := trace w @
         [Write (device_address (device self)) [1],
          ReadInto (device_address (device self)) 1,
          Write (device_address (device self)) [1, unset_bit 1 s]],
       stdout := stdout w @
         (if debug self
          then [DebugRead 1 [uint s], DebugWrite 1 (uint s AND NOT 2)]
          else [])\<rparr>)"
  using clear_flag_run [OF assms, of 1]
  by (simp add: pressed_def BUTTON_PRESSED_BIT_def unset_bit_eq_and_not)

lemma clicked_run:
  assumes "peripherals w (device_address (device self)) = Some p" and "regs p 1 = s"
  shows "clicked self w =
    (Inr (bit s 2),
     w\<lparr>peripherals := (peripherals w)(device_address (device self) \<mapsto>
          \<lparr>regs = (regs p)(1 := unset_bit 2 s), pointer = 1\<rparr>),
       trace := trace w @
         [Write (device_address (device self)) [1],
          ReadInto (device_address (device self)) 1,
          Write (device_address (device self)) [1, unset_bit 2 s]],
       stdout := stdout w @
         (if debug self
          then [DebugRead 1 [uint s], DebugWrite 1 (uint s AND NOT 4)]
          else [])\<rparr>)"
  using clear_flag_run [OF assms, of 2]
  by (simp add: clicked_def BUTTON_CLICKED_BIT_def unset_bit_eq_and_not)

text \<open>
  C1. For every status byte \<open>s\<close> held by the peripheral the client is bound to, reading
  \<^verbatim>\<open>moved\<close> (respectively \<^verbatim>\<open>pressed\<close>, \<^verbatim>\<open>clicked\<close>) returns whether bit 0 (respectively
  1, 2) of \<open>s\<close> is set, and its last transfer writes \<open>s\<close> back with that one bit cleared
  (\<^const>\<open>unset_bit\<close>), every other bit and every other register as before.
\<close>

theorem flag_read_clears_only_its_bit:
  assumes "peripherals w (device_address (device self)) = Some p" and "regs p 1 = s"
  shows "fst (moved self w) = Inr (bit s 0)
     \<and> map_option regs (peripherals (snd (moved self w)) (device_address (device self)))
         = Some ((regs p)(1 := unset_bit 0 s))
     \<and> trace (snd (moved self w)) = trace w @
         [Write (device_address (device self)) [1],
          ReadInto (device_address (device self)) 1,
          Write (device_address (device self)) [1, unset_bit 0 s]]
     \<and> fst (pressed self w) = Inr (bit s 1)
     \<and> map_option regs (peripherals (snd (pressed self w)) (device_address (device self)))
         = Some ((regs p)(1 := unset_bit 1 s))
     \<and> trace (snd (pressed self w)) = trace w @
         [Write (device_address (device self)) [1],
          ReadInto (device_address (device self)) 1,
          Write (device_address (device self)) [1, unset_bit 1 s]]
     \<and> fst (clicked self w) = Inr (bit s 2)
     \<and> map_option regs (peripherals (snd (clicked self w)) (device_address (device self)))
         = Some ((regs p)(1 := unset_bit 2 s))
     \<and> trace (snd (clicked self w)) = trace w @
         [Write (device_address (device self)) [1],
          ReadInto (device_address (device self)) 1,
          Write (device_address (device self)) [1, unset_bit 2 s]]"
  by (simp add: moved_run [OF assms] pressed_run [OF assms] clicked_run [OF assms])

text \<open>Status \<open>0b111\<close>: \<^verbatim>\<open>moved\<close> returns \<^verbatim>\<open>True\<close> and leaves \<open>0b110\<close>.\<close>

theorem flag_read_clears_only_its_bit_witness:
  "peripherals (bench [0x3F \<mapsto> fresh ((\<lambda>_. 0)(1 := 7))]) (device_address (device (twist_at 0x3F)))
      = Some (fresh ((\<lambda>_. 0)(1 := 7)))
   \<and> regs (fresh ((\<lambda>_. 0)(1 := 7))) 1 = 7
   \<and> fst (moved (twist_at 0x3F) (bench [0x3F \<mapsto> fresh ((\<lambda>_. 0)(1 := 7))])) = Inr True
   \<and> map_option regs
        (peripherals (snd (moved (twist_at 0x3F) (bench [0x3F \<mapsto> fresh ((\<lambda>_. 0)(1 := 7))]))) 0x3F)
       = Some ((\<lambda>_. 0)(1 := 6))"
proof -
  have h1: "peripherals (bench [0x3F \<mapsto> fresh ((\<lambda>_. 0)(1 := 7))]) (device_address (device (twist_at 0x3F)))
      = Some (fresh ((\<lambda>_. 0)(1 := 7)))"
    by (simp add: bench_def twist_at_def)
  have h2: "regs (fresh ((\<lambda>_. 0)(1 := 7))) 1 = 7"
    by (simp add: fresh_def)
  have u: "unset_bit 0 (7 :: byte) = 6" by simp
  from flag_read_clears_only_its_bit [OF h1 h2] h1 h2 show ?thesis
    by (simp add: twist_at_def fresh_def u)
qed

section \<open>Sixteen-bit registers\<close>

lemma assemble16_mult:
  "256 * uint (hi::byte) OR uint (lo::byte) = uint (word_cat hi lo :: 16 word)"
  using assemble16 [of hi lo] by (simp add: push_bit_eq_mult mult.commute)

lemma read_register16_run:
  assumes "peripherals w (device_address (device self)) = Some p"
  shows "read_register16 self addr w =
    (Inr (uint (word_cat (regs p (word_of_int addr + 1)) (regs p (word_of_int addr)) :: 16 word)),
     w\<lparr>peripherals := (peripherals w)(device_address (device self) \<mapsto>
          \<lparr>regs = regs p, pointer = word_of_int addr\<rparr>),
       trace := trace w @ [Write (device_address (device self)) [word_of_int addr],
                           ReadInto (device_address (device self)) 2],
       stdout := stdout w @
         (if debug self
          then [DebugRead addr [uint (regs p (word_of_int addr)), uint (regs p (word_of_int addr + 1))]]
          else [])\<rparr>)"
  using assms
  by (simp add: read_register16_def run_simps assemble16_mult eval_nat_numeral)

lemma write_register16_run:
  assumes "peripherals w (device_address (device self)) = Some p"
  shows "write_register16 self addr v w =
    (Inr (),
     w\<lparr>peripherals := (peripherals w)(device_address (device self) \<mapsto>
          \<lparr>regs = (regs p)(word_of_int addr := word_of_int v,
                            word_of_int addr + 1 := word_of_int (drop_bit 8 v)),
           pointer = word_of_int addr\<rparr>),
       trace := trace w @ [Write (device_address (device self))
          [word_of_int addr, word_of_int v, word_of_int (drop_bit 8 v)]],
       stdout := stdout w @
         (if debug self
          then [DebugWrite addr (v AND 255), DebugWrite addr (drop_bit 8 v AND 255)]
          else [])\<rparr>)"
  using assms
  by (simp add: write_register16_def run_simps)

lemma difference_run:
  assumes "peripherals w (device_address (device self)) = Some p"
  shows "difference self w =
    (Inr (sint (word_cat (regs p 8) (regs p 7) :: 16 word)),
     w\<lparr>peripherals := (peripherals w)(device_address (device self) \<mapsto>
          \<lparr>regs = (regs p)(7 := 0, 8 := 0), pointer = 7\<rparr>),
       trace := trace w @
         [Write (device_address (device self)) [7],
          ReadInto (device_address (device self)) 2,
          Write (device_address (device self)) [7, 0, 0]],
       stdout := stdout w @
         (if debug self
          then [DebugRead 7 [uint (regs p 7), uint (regs p 8)], DebugWrite 7 0, DebugWrite 7 0]
          else [])\<rparr>)"
  using assms
  by (simp add: difference_def read_register16_def write_register16_def run_simps
      assemble16_mult signed_int16_uint TWIST_DIFFERENCE_def eval_nat_numeral)

lemma low_byte: "uint (word_cat (hi::byte) (lo::byte) :: 16 word) AND 255 = uint lo"
  by (rule bit_eqI) (auto simp add: and_255 bit_simps dest: bit_imp_le_length)

lemma high_byte: "drop_bit 8 (uint (word_cat (hi::byte) (lo::byte) :: 16 word)) AND 255 = uint hi"
  by (rule bit_eqI) (auto simp add: and_255 bit_simps dest: bit_imp_le_length)

lemma version_run:
  assumes "peripherals w (device_address (device self)) = Some p"
  shows "version self w =
    (Inr (''v'' @ str (uint (regs p 2)) @ ''.'' @ str (uint (regs p 3))),
     w\<lparr>peripherals := (peripherals w)(device_address (device self) \<mapsto>
          \<lparr>regs = regs p, pointer = 2\<rparr>),
       trace := trace w @
         [Write (device_address (device self)) [2],
          ReadInto (device_address (device self)) 2],
       stdout := stdout w @
         (if debug self then [DebugRead 2 [uint (regs p 2), uint (regs p 3)]] else [])\<rparr>)"
  using assms
  by (simp add: version_def read_register16_run TWIST_VERSION_def io_bind_def io_return_def
      Let_def low_byte high_byte)

lemma split16_mult:
  "256 * uint (word_of_int (drop_bit 8 v) :: byte) OR uint (word_of_int v :: byte) = take_bit 16 v"
  using split16 [of v] by (simp add: push_bit_eq_mult mult.commute)

lemma roundtrip16_word:
  assumes "- 32768 \<le> v" and "v \<le> 32767"
  shows "sint (word_cat (word_of_int (drop_bit 8 v) :: byte) (word_of_int v :: byte) :: 16 word) = v"
  using roundtrip16 [OF assms] by (simp add: assemble16 signed_int16_uint)

lemma write_then_read16:
  assumes "peripherals w (device_address (device self)) = Some p"
    and "- 32768 \<le> v" and "v \<le> 32767"
  shows "fst (io_bind (write_register16 self addr v) (\<lambda>_.
              io_bind (read_register16 self addr) (\<lambda>x.
              io_return (signed_int16 x))) w) = Inr v"
  using assms(1) roundtrip16_word [OF assms(2,3)]
  by (simp add: read_register16_def write_register16_def run_simps
      assemble16_mult signed_int16_uint eval_nat_numeral)

lemma write_register16_trace:
  "trace (snd (write_register16 self addr v w)) = trace w @
     [Write (device_address (device self))
        [word_of_int addr, word_of_int v, word_of_int (drop_bit 8 v)]]"
  by (simp add: write_register16_def run_simps split: option.split)

lemma write_register24_trace:
  "trace (snd (write_register24 self addr v w)) = trace w @
     [Write (device_address (device self))
        [word_of_int addr, word_of_int (drop_bit 16 v), word_of_int (drop_bit 8 v), word_of_int v]]"
  by (simp add: write_register24_def run_simps split: option.split)

lemma rgb_bytes:
  "(word_of_int (drop_bit 16 (push_bit 16 (r AND 255) OR push_bit 8 (g AND 255) OR (b AND 255))) :: byte)
     = word_of_int r"
  "(word_of_int (drop_bit 8 (push_bit 16 (r AND 255) OR push_bit 8 (g AND 255) OR (b AND 255))) :: byte)
     = word_of_int g"
  "(word_of_int (push_bit 16 (r AND 255) OR push_bit 8 (g AND 255) OR (b AND 255)) :: byte)
     = word_of_int b"
  by (rule bit_word_eqI; auto simp add: and_255 bit_simps)+

section \<open>Writes on the wire\<close>

text \<open>
  C6. For all integers \<open>r\<close>, \<open>g\<close>, \<open>b\<close>, \<^verbatim>\<open>set_color(r, g, b)\<close> adds exactly one transfer
  to the bus: a write of the four bytes \<open>0x0D\<close>, \<open>r & 0xFF\<close>, \<open>g & 0xFF\<close>, \<open>b & 0xFF\<close>, red
  (the most significant byte of the 24-bit value) first.
\<close>

theorem set_color_single_write:
  "trace (snd (set_color self r g b w)) = trace w @
     [Write (device_address (device self)) (map word_of_int [0x0D, r AND 0xFF, g AND 0xFF, b AND 0xFF])]
   \<and> map uint (map word_of_int [0x0D, r AND 0xFF, g AND 0xFF, b AND 0xFF] :: byte list)
       = [0x0D, r AND 0xFF, g AND 0xFF, b AND 0xFF]"
proof -
  have "trace (snd (set_color self r g b w)) = trace w @
     [Write (device_address (device self))
        [word_of_int TWIST_RED, word_of_int r, word_of_int g, word_of_int b]]"
    unfolding set_color_def write_register24_trace rgb_bytes ..
  then show ?thesis
    by (simp add: TWIST_RED_def uint_word_of_and_255 word_of_and_255)
qed

text \<open>\<^verbatim>\<open>set_color(10, 20, 30)\<close> writes \<open>[0x0D, 10, 20, 30]\<close>.\<close>

theorem set_color_single_write_witness:
  "trace (snd (set_color (twist_at 0x3F) 10 20 30 (bench [0x3F \<mapsto> fresh (\<lambda>_. 0)])))
     = [Write 0x3F [0x0D, 10, 20, 30]]"
  using set_color_single_write [of "twist_at 0x3F" 10 20 30 "bench [0x3F \<mapsto> fresh (\<lambda>_. 0)]"]
  by (simp add: bench_def twist_at_def)

text \<open>
  C7. For every register address \<open>addr\<close> (an 8-bit offset) and every integer value, the 16-bit
  write adds exactly one transfer: a write of \<open>addr\<close>, then the low byte of the value, then
  its high byte.
\<close>

theorem write_register16_lsb_first:
  assumes "0 \<le> addr" and "addr \<le> 255"
  shows "trace (snd (write_register16 self addr v w)) = trace w @
     [Write (device_address (device self))
        (map word_of_int [addr, v AND 0xFF, drop_bit 8 v AND 0xFF])]
   \<and> map uint (map word_of_int [addr, v AND 0xFF, drop_bit 8 v AND 0xFF] :: byte list)
       = [addr, v mod 256, v div 256 mod 256]"
proof -
  from assms have a: "addr AND 255 = addr"
    by (simp add: and_255 take_bit_int_eq_self)
  have b: "v AND 255 = v mod 256" and c: "drop_bit 8 v AND 255 = v div 256 mod 256"
    by (simp_all add: and_255 take_bit_eq_mod drop_bit_eq_div)
  have "map uint (map word_of_int [addr, v AND 0xFF, drop_bit 8 v AND 0xFF] :: byte list)
       = [addr AND 255, v AND 255, drop_bit 8 v AND 255]"
    by (simp add: uint_word_of_and_255 word_of_and_255)
  then have "map uint (map word_of_int [addr, v AND 0xFF, drop_bit 8 v AND 0xFF] :: byte list)
       = [addr, v mod 256, v div 256 mod 256]"
    by (simp only: a b c)
  then show ?thesis
    by (simp add: write_register16_trace word_of_and_255)
qed

text \<open>The value \<open>-2\<close> at offset 5 goes out as \<open>[5, 0xFE, 0xFF]\<close>.\<close>

theorem write_register16_lsb_first_witness:
  "(0::int) \<le> 5 \<and> (5::int) \<le> 255 \<and>
   trace (snd (write_register16 (twist_at 0x3F) 5 (- 2) (bench [0x3F \<mapsto> fresh (\<lambda>_. 0)])))
     = [Write 0x3F [5, 254, 255]]"
  using write_register16_lsb_first [of 5 "twist_at 0x3F" "- 2" "bench [0x3F \<mapsto> fresh (\<lambda>_. 0)]"]
  by (simp add: bench_def twist_at_def)

section \<open>Decimal numerals\<close>

text \<open>\<^verbatim>\<open>str\<close> of a natural number is its decimal numeral.\<close>

lemma below_ten:
  "(d::nat) < 10 \<longleftrightarrow>
     d = 0 \<or> d = 1 \<or> d = 2 \<or> d = 3 \<or> d = 4 \<or> d = 5 \<or> d = 6 \<or> d = 7 \<or> d = 8 \<or> d = 9"
  by arith

lemma digit_value_digit: "d < 10 \<Longrightarrow> digit_value (digit d) = d"
  unfolding below_ten by (elim disjE) (simp_all add: digit_def digit_value_def)

lemma is_digit_digit: "d < 10 \<Longrightarrow> is_digit (digit d)"
  unfolding below_ten by (elim disjE) (simp_all add: digit_def is_digit_def)

lemma digit_zero_iff: "d < 10 \<Longrightarrow> (digit d = CHR ''0'') = (d = 0)"
  unfolding below_ten by (elim disjE) (simp_all add: digit_def)

lemma decimal_value_snoc: "decimal_value (s @ [c]) = 10 * decimal_value s + digit_value c"
  by (simp add: decimal_value_def)

lemma decimal_value_single: "decimal_value [c] = digit_value c"
  by (simp add: decimal_value_def)

lemma decimal_value_str_nat: "decimal_value (str_nat n) = n"
proof (induction n rule: str_nat.induct)
  case (1 n)
  show ?case
  proof (cases "n < 10")
    case True
    then show ?thesis
      by (subst str_nat.simps) (simp add: decimal_value_single digit_value_digit)
  next
    case False
    with 1 have "decimal_value (str_nat (n div 10)) = n div 10" by simp
    with False show ?thesis
      by (subst str_nat.simps) (simp add: decimal_value_snoc digit_value_digit)
  qed
qed

lemma str_nat_not_Nil: "str_nat n \<noteq> []"
  by (subst str_nat.simps) simp

lemma digits_str_nat: "list_all is_digit (str_nat n)"
proof (induction n rule: str_nat.induct)
  case (1 n)
  show ?case
  proof (cases "n < 10")
    case True
    then show ?thesis
      by (subst str_nat.simps) (simp add: is_digit_digit)
  next
    case False
    with 1 have "list_all is_digit (str_nat (n div 10))" by simp
    with False show ?thesis
      by (subst str_nat.simps) (simp add: is_digit_digit)
  qed
qed

lemma hd_str_nat: "0 < n \<Longrightarrow> hd (str_nat n) \<noteq> CHR ''0''"
proof (induction n rule: str_nat.induct)
  case (1 n)
  show ?case
  proof (cases "n < 10")
    case True
    with 1(2) show ?thesis
      by (subst str_nat.simps) (simp add: digit_zero_iff)
  next
    case False
    then have "0 < n div 10" by simp
    with 1(1) False have "hd (str_nat (n div 10)) \<noteq> CHR ''0''" by simp
    with False show ?thesis
      by (subst str_nat.simps) (simp add: str_nat_not_Nil)
  qed
qed

lemma str_nat_0: "str_nat 0 = ''0''"
  by (subst str_nat.simps) (simp add: digit_def)

lemma decimal_numeral_str_nat: "decimal_numeral (str_nat n)"
proof (cases "n = 0")
  case True
  then show ?thesis by (simp add: decimal_numeral_def str_nat_0 is_digit_def)
next
  case False
  then show ?thesis
    using hd_str_nat [of n] by (simp add: decimal_numeral_def str_nat_not_Nil digits_str_nat)
qed

lemma str_byte:
  "decimal_numeral (str (uint (b::byte))) \<and> decimal_value (str (uint b)) = unat b"
  by (simp add: str_def decimal_numeral_str_nat decimal_value_str_nat)

lemma str_nat_255: "str 255 = ''255'' \<and> str 12 = ''12'' \<and> str 0 = ''0'' \<and> str (- 7) = ''-7''"
  by (simp add: str_def str_nat.simps digit_def)

section \<open>Difference, version and the round trip\<close>

text \<open>
  C5. For every state of the peripheral, reading \<^verbatim>\<open>difference\<close> returns the 16-bit value of
  the difference register (offsets 7 and 8, low byte first) read as two's complement, and
  then writes 0 to it: both bytes are 0 afterwards, all other registers are unchanged.
\<close>

theorem difference_returns_signed_and_resets:
  assumes "peripherals w (device_address (device self)) = Some p"
  shows "fst (difference self w) = Inr (sint (word_cat (regs p 8) (regs p 7) :: 16 word))
     \<and> map_option regs (peripherals (snd (difference self w)) (device_address (device self)))
         = Some ((regs p)(7 := 0, 8 := 0))
     \<and> trace (snd (difference self w)) = trace w @
         [Write (device_address (device self)) [7],
          ReadInto (device_address (device self)) 2,
          Write (device_address (device self)) [7, 0, 0]]"
  by (simp add: difference_run [OF assms])

lemma cat_example: "sint (word_cat (0xFF :: byte) (0xFE :: byte) :: 16 word) = - 2"
  by (simp add: word_cat_eq)

text \<open>Register bytes \<open>FE FF\<close>: the result is \<open>-2\<close> and the register is cleared.\<close>

theorem difference_returns_signed_and_resets_witness:
  "peripherals (bench [0x3F \<mapsto> fresh ((\<lambda>_. 0)(7 := 0xFE, 8 := 0xFF))])
      (device_address (device (twist_at 0x3F))) = Some (fresh ((\<lambda>_. 0)(7 := 0xFE, 8 := 0xFF)))
   \<and> fst (difference (twist_at 0x3F) (bench [0x3F \<mapsto> fresh ((\<lambda>_. 0)(7 := 0xFE, 8 := 0xFF))]))
       = Inr (- 2)
   \<and> map_option regs (peripherals
        (snd (difference (twist_at 0x3F) (bench [0x3F \<mapsto> fresh ((\<lambda>_. 0)(7 := 0xFE, 8 := 0xFF))])))
        0x3F) = Some ((\<lambda>_. 0)(7 := 0, 8 := 0))"
proof -
  have h: "peripherals (bench [0x3F \<mapsto> fresh ((\<lambda>_. 0)(7 := 0xFE, 8 := 0xFF))])
      (device_address (device (twist_at 0x3F))) = Some (fresh ((\<lambda>_. 0)(7 := 0xFE, 8 := 0xFF)))"
    by (simp add: bench_def twist_at_def)
  from difference_returns_signed_and_resets [OF h] h show ?thesis
    by (simp add: twist_at_def fresh_def cat_example)
qed

text \<open>
  C8. For every pair of bytes that the peripheral holds at the version register (offset 2 the
  low byte, offset 3 the high byte), \<^verbatim>\<open>version\<close> returns \<open>v\<close>, the decimal numeral of the
  low byte, a dot, and the decimal numeral of the high byte, and writes nothing: the two
  strings between which the dot stands are decimal numerals, and they denote the values of
  the low and of the high byte.
\<close>

theorem version_formats_low_then_high:
  assumes "peripherals w (device_address (device self)) = Some p"
  shows "fst (version self w) = Inr (''v'' @ str (uint (regs p 2)) @ ''.'' @ str (uint (regs p 3)))
     \<and> decimal_numeral (str (uint (regs p 2))) \<and> decimal_value (str (uint (regs p 2))) = unat (regs p 2)
     \<and> decimal_numeral (str (uint (regs p 3))) \<and> decimal_value (str (uint (regs p 3))) = unat (regs p 3)
     \<and> map_option regs (peripherals (snd (version self w)) (device_address (device self)))
         = Some (regs p)
     \<and> trace (snd (version self w)) = trace w @
         [Write (device_address (device self)) [2],
          ReadInto (device_address (device self)) 2]"
  by (simp add: version_run [OF assms] str_byte)

text \<open>Wire bytes \<open>0C FF\<close> give \<open>v12.255\<close>.\<close>

theorem version_formats_low_then_high_witness:
  "peripherals (bench [0x3F \<mapsto> fresh ((\<lambda>_. 0)(2 := 12, 3 := 255))])
      (device_address (device (twist_at 0x3F))) = Some (fresh ((\<lambda>_. 0)(2 := 12, 3 := 255)))
   \<and> fst (version (twist_at 0x3F) (bench [0x3F \<mapsto> fresh ((\<lambda>_. 0)(2 := 12, 3 := 255))]))
       = Inr ''v12.255''
   \<and> decimal_numeral ''12'' \<and> decimal_value ''12'' = 12
   \<and> decimal_numeral ''255'' \<and> decimal_value ''255'' = 255"
proof -
  have h: "peripherals (bench [0x3F \<mapsto> fresh ((\<lambda>_. 0)(2 := 12, 3 := 255))])
      (device_address (device (twist_at 0x3F))) = Some (fresh ((\<lambda>_. 0)(2 := 12, 3 := 255)))"
    by (simp add: bench_def twist_at_def)
  from version_formats_low_then_high [OF h] h show ?thesis
    by (simp add: fresh_def str_def str_nat.simps digit_def)
qed

text \<open>Wire bytes \<open>01 02\<close> give \<open>v1.2\<close>.\<close>

lemma version_example:
  "fst (version (twist_at 0x3F) (bench [0x3F \<mapsto> fresh ((\<lambda>_. 0)(2 := 0x01, 3 := 0x02))]))
       = Inr ''v1.2''"
proof -
  have h: "peripherals (bench [0x3F \<mapsto> fresh ((\<lambda>_. 0)(2 := 0x01, 3 := 0x02))])
      (device_address (device (twist_at 0x3F))) = Some (fresh ((\<lambda>_. 0)(2 := 0x01, 3 := 0x02)))"
    by (simp add: bench_def twist_at_def)
  from version_run [OF h] show ?thesis
    by (simp add: fresh_def str_def str_nat.simps digit_def)
qed

text \<open>
  C10. For every integer \<open>v\<close> in \<open>[-32768, 32767]\<close> and every register address, writing \<open>v\<close>
  with the 16-bit write, reading the register back with the 16-bit read and applying the
  signed reconstruction yields \<open>v\<close>, on a peripheral that stores the bytes it is sent; in
  particular setting \<^verbatim>\<open>count\<close> and reading it gives the value set.
\<close>

theorem signed16_write_read_roundtrip:
  assumes "peripherals w (device_address (device self)) = Some p"
    and "- 32768 \<le> v" and "v \<le> 32767"
  shows "fst (io_bind (write_register16 self addr v) (\<lambda>_.
              io_bind (read_register16 self addr) (\<lambda>x.
              io_return (signed_int16 x))) w) = Inr v
     \<and> fst (io_bind (count_setter self v) (\<lambda>_. count self) w) = Inr v"
  using write_then_read16 [OF assms, of addr] write_then_read16 [OF assms, of TWIST_COUNT]
  by (simp add: count_def count_setter_def)

text \<open>Setting the count to \<open>-2\<close> and reading it back.\<close>

theorem signed16_write_read_roundtrip_witness:
  "peripherals (bench [0x3F \<mapsto> fresh (\<lambda>_. 0)]) (device_address (device (twist_at 0x3F)))
      = Some (fresh (\<lambda>_. 0))
   \<and> - 32768 \<le> (- 2 :: int) \<and> (- 2 :: int) \<le> 32767
   \<and> fst (io_bind (count_setter (twist_at 0x3F) (- 2)) (\<lambda>_. count (twist_at 0x3F))
        (bench [0x3F \<mapsto> fresh (\<lambda>_. 0)])) = Inr (- 2)"
proof -
  have h: "peripherals (bench [0x3F \<mapsto> fresh (\<lambda>_. 0)]) (device_address (device (twist_at 0x3F)))
      = Some (fresh (\<lambda>_. 0))"
    by (simp add: bench_def twist_at_def)
  from signed16_write_read_roundtrip [OF h, of "- 2" 5] h show ?thesis
    by simp
qed

section \<open>Changing the address\<close>

lemma except_ValueError_eq:
  "except_ValueError m h = (\<lambda>w. case m w of
        (Inl err, w') \<Rightarrow> if err = ValueError then h err w' else (Inl err, w')
      | (Inr x, w') \<Rightarrow> (Inr x, w'))"
  by (rule ext) (simp add: except_ValueError_def)

lemma sleep_eq:
  "sleep seconds = (\<lambda>w. if seconds < 0 then (Inl ValueError, w) else (Inr (), emit (Sleep seconds) w))"
  by (rule ext) (simp add: sleep_def)

lemma I2CDevice_init_eq:
  "I2CDevice_init i2c_bus address = (\<lambda>w.
     (let w' = emit (Probe address) w in
      case peripherals w address of
        None \<Rightarrow> (Inl ValueError, w')
      | Some p \<Rightarrow> (Inr \<lparr>bus = i2c_bus, device_address = address\<rparr>, w')))"
  by (rule ext) (simp add: I2CDevice_init_def)

lemma address_byte: "8 \<le> n \<Longrightarrow> n \<le> 119 \<Longrightarrow> uint (word_of_int n :: byte) = n"
  by (simp add: uint_word_of_int_eq take_bit_int_eq_self)

lemma change_address_rejects:
  assumes "n < 8 \<or> 119 < n"
  shows "change_address self n w =
    (Inr (False, self), w\<lparr>stdout := stdout w @ [Text ''ERROR: Address outside 8-119 range'']\<rparr>)"
  using assms by (auto simp add: change_address_def io_bind_eq print_def io_return_def)

lemma change_address_first_transfer:
  assumes "8 \<le> n" and "n \<le> 119"
  shows "\<exists>rest. trace (snd (change_address self n w)) =
     trace w @ Write (device_address (device self)) [0x18, word_of_int n] # rest"
  using assms
  by (auto simp add: change_address_def write_register8_def run_simps TWIST_CHANGE_ADDRESS_def
      except_ValueError_eq sleep_eq I2CDevice_init_eq split: option.split)

lemma change_address_rebinds:
  assumes "8 \<le> n" and "n \<le> 119"
    and "peripherals w (device_address (device self)) = Some p"
    and "peripherals w n \<noteq> None"
  shows "change_address self n w =
    (Inr (True, self\<lparr>device := \<lparr>bus = i2c self, device_address = n\<rparr>\<rparr>),
     w\<lparr>peripherals := (peripherals w)(device_address (device self) \<mapsto>
          \<lparr>regs = (regs p)(0x18 := word_of_int n), pointer = 0x18\<rparr>),
       trace := trace w @
         [Write (device_address (device self)) [0x18, word_of_int n], Sleep 1, Probe n],
       stdout := stdout w @ (if debug self then [DebugWrite 0x18 n] else [])\<rparr>)"
  using assms
  by (auto simp add: change_address_def write_register8_def run_simps TWIST_CHANGE_ADDRESS_def
      except_ValueError_eq sleep_eq I2CDevice_init_eq split: option.split)

lemma change_address_keeps_binding:
  assumes "8 \<le> n" and "n \<le> 119"
    and "peripherals w (device_address (device self)) = Some p"
    and "peripherals w n = None"
  shows "change_address self n w =
    (Inr (False, self),
     w\<lparr>peripherals := (peripherals w)(device_address (device self) \<mapsto>
          \<lparr>regs = (regs p)(0x18 := word_of_int n), pointer = 0x18\<rparr>),
       trace := trace w @
         [Write (device_address (device self)) [0x18, word_of_int n], Sleep 1, Probe n],
       stdout := stdout w @ (if debug self then [DebugWrite 0x18 n] else []) @
         [Text ''Address Change Failure'', Err ValueError]\<rparr>)"
  using assms
  by (auto simp add: change_address_def write_register8_def run_simps TWIST_CHANGE_ADDRESS_def
      except_ValueError_eq sleep_eq I2CDevice_init_eq split: option.split)

text \<open>
  C2 as stated says that every in-range address is rebound and answered with \<^verbatim>\<open>True\<close>.
  With a Twist at \<open>0x3F\<close> and nothing at 64, \<^verbatim>\<open>change_address(64)\<close> catches the
  \<^verbatim>\<open>ValueError\<close> of the constructor and returns \<^verbatim>\<open>False\<close>.
\<close>

theorem change_address_rebind_can_fail:
  "8 \<le> (64::int) \<and> (64::int) \<le> 119
   \<and> fst (change_address (twist_at 0x3F) 64 (bench [0x3F \<mapsto> fresh (\<lambda>_. 0)]))
       = Inr (False, twist_at 0x3F)"
proof -
  have "peripherals (bench [0x3F \<mapsto> fresh (\<lambda>_. 0)]) (device_address (device (twist_at 0x3F)))
      = Some (fresh (\<lambda>_. 0))"
    and "peripherals (bench [0x3F \<mapsto> fresh (\<lambda>_. 0)]) 64 = None"
    by (simp_all add: bench_def twist_at_def)
  then show ?thesis
    by (simp add: change_address_keeps_binding)
qed

text \<open>
  C2, amended. \<^verbatim>\<open>change_address(new_address)\<close> issues a bus write iff
  \<open>8 \<le> new_address \<le> 119\<close>. Out of range it returns \<^verbatim>\<open>False\<close> and leaves the bus and the
  peripherals untouched. In range its first transfer is the 8-bit write of \<open>new_address\<close> to
  offset \<open>0x18\<close>; when the peripheral answers that write and a peripheral answers the probe
  at the new address, the call then waits one second, probes, rebinds the device handle to
  the new address on the same bus and returns \<^verbatim>\<open>True\<close>.
\<close>

theorem change_address_validates_then_rebinds:
  "(n < 8 \<or> 119 < n \<longrightarrow>
      fst (change_address self n w) = Inr (False, self)
    \<and> trace (snd (change_address self n w)) = trace w
    \<and> peripherals (snd (change_address self n w)) = peripherals w)
   \<and> (8 \<le> n \<and> n \<le> 119 \<longrightarrow>
      (\<exists>rest. trace (snd (change_address self n w)) =
         trace w @ Write (device_address (device self)) (map word_of_int [0x18, n]) # rest)
    \<and> map uint (map word_of_int [0x18, n] :: byte list) = [0x18, n])
   \<and> ((trace (snd (change_address self n w)) \<noteq> trace w) = (8 \<le> n \<and> n \<le> 119))
   \<and> (8 \<le> n \<and> n \<le> 119
      \<and> peripherals w (device_address (device self)) \<noteq> None \<and> peripherals w n \<noteq> None \<longrightarrow>
      fst (change_address self n w)
        = Inr (True, self\<lparr>device := \<lparr>bus = i2c self, device_address = n\<rparr>\<rparr>)
    \<and> trace (snd (change_address self n w)) = trace w @
        [Write (device_address (device self)) (map word_of_int [0x18, n]), Sleep 1, Probe n])"
proof (intro conjI impI)
  assume out: "n < 8 \<or> 119 < n"
  show "fst (change_address self n w) = Inr (False, self)"
    and "trace (snd (change_address self n w)) = trace w"
    and "peripherals (snd (change_address self n w)) = peripherals w"
    by (simp_all add: change_address_rejects [OF out])
next
  assume "8 \<le> n \<and> n \<le> 119"
  then show "\<exists>rest. trace (snd (change_address self n w)) =
         trace w @ Write (device_address (device self)) (map word_of_int [0x18, n]) # rest"
    using change_address_first_transfer [of n self w] by simp
next
  assume "8 \<le> n \<and> n \<le> 119"
  then show "map uint (map word_of_int [0x18, n] :: byte list) = [0x18, n]"
    by (simp add: address_byte)
next
  show "(trace (snd (change_address self n w)) \<noteq> trace w) = (8 \<le> n \<and> n \<le> 119)"
  proof (cases "8 \<le> n \<and> n \<le> 119")
    case True
    with change_address_first_transfer [of n self w] show ?thesis by auto
  next
    case False
    then have "n < 8 \<or> 119 < n" by auto
    from change_address_rejects [OF this] False show ?thesis by simp
  qed
next
  assume a: "8 \<le> n \<and> n \<le> 119
      \<and> peripherals w (device_address (device self)) \<noteq> None \<and> peripherals w n \<noteq> None"
  then obtain p where p: "peripherals w (device_address (device self)) = Some p" by auto
  from a have r: "8 \<le> n" "n \<le> 119" "peripherals w n \<noteq> None" by auto
  show "fst (change_address self n w)
        = Inr (True, self\<lparr>device := \<lparr>bus = i2c self, device_address = n\<rparr>\<rparr>)"
    and "trace (snd (change_address self n w)) = trace w @
        [Write (device_address (device self)) (map word_of_int [0x18, n]), Sleep 1, Probe n]"
    by (simp_all add: change_address_rebinds [OF r(1,2) p r(3)])
qed

text \<open>Addresses 5 and 200 are refused without traffic; 64 is written, waited for and rebound.\<close>

theorem change_address_validates_then_rebinds_witness:
  "((5::int) < 8 \<or> 119 < (5::int))
   \<and> fst (change_address (twist_at 0x3F) 5 (bench [0x3F \<mapsto> fresh (\<lambda>_. 0), 64 \<mapsto> fresh (\<lambda>_. 0)]))
       = Inr (False, twist_at 0x3F)
   \<and> trace (snd (change_address (twist_at 0x3F) 5
        (bench [0x3F \<mapsto> fresh (\<lambda>_. 0), 64 \<mapsto> fresh (\<lambda>_. 0)]))) = []
   \<and> ((200::int) < 8 \<or> 119 < (200::int))
   \<and> fst (change_address (twist_at 0x3F) 200 (bench [0x3F \<mapsto> fresh (\<lambda>_. 0), 64 \<mapsto> fresh (\<lambda>_. 0)]))
       = Inr (False, twist_at 0x3F)
   \<and> (8 \<le> (64::int) \<and> (64::int) \<le> 119)
   \<and> peripherals (bench [0x3F \<mapsto> fresh (\<lambda>_. 0), 64 \<mapsto> fresh (\<lambda>_. 0)])
        (device_address (device (twist_at 0x3F))) \<noteq> None
   \<and> peripherals (bench [0x3F \<mapsto> fresh (\<lambda>_. 0), 64 \<mapsto> fresh (\<lambda>_. 0)]) 64 \<noteq> None
   \<and> fst (change_address (twist_at 0x3F) 64 (bench [0x3F \<mapsto> fresh (\<lambda>_. 0), 64 \<mapsto> fresh (\<lambda>_. 0)]))
       = Inr (True, twist_at 64)
   \<and> trace (snd (change_address (twist_at 0x3F) 64
        (bench [0x3F \<mapsto> fresh (\<lambda>_. 0), 64 \<mapsto> fresh (\<lambda>_. 0)])))
       = [Write 0x3F [0x18, 64], Sleep 1, Probe 64]"
  using change_address_validates_then_rebinds
      [of 5 "twist_at 0x3F" "bench [0x3F \<mapsto> fresh (\<lambda>_. 0), 64 \<mapsto> fresh (\<lambda>_. 0)]"]
    change_address_validates_then_rebinds
      [of 200 "twist_at 0x3F" "bench [0x3F \<mapsto> fresh (\<lambda>_. 0), 64 \<mapsto> fresh (\<lambda>_. 0)]"]
    change_address_validates_then_rebinds
      [of 64 "twist_at 0x3F" "bench [0x3F \<mapsto> fresh (\<lambda>_. 0), 64 \<mapsto> fresh (\<lambda>_. 0)]"]
  by (simp add: bench_def twist_at_def)

text \<open>
  C3. When the address is in range, the write is answered and nothing answers the probe at
  the new address, \<^verbatim>\<open>change_address\<close> returns \<^verbatim>\<open>False\<close> (it does not raise) after the
  write, the wait and the probe, prints the cause, and returns the client with the device
  binding it had: the next operation of that client goes to the old address.
\<close>

theorem change_address_failed_rebind_keeps_old_binding:
  assumes "8 \<le> n" and "n \<le> 119"
    and "peripherals w (device_address (device self)) = Some p"
    and "peripherals w n = None"
  shows "fst (change_address self n w) = Inr (False, self)
     \<and> trace (snd (change_address self n w)) = trace w @
         [Write (device_address (device self)) [0x18, word_of_int n], Sleep 1, Probe n]
     \<and> stdout (snd (change_address self n w)) =
         stdout w @ (if debug self then [DebugWrite 0x18 n] else []) @
         [Text ''Address Change Failure'', Err ValueError]
     \<and> device (snd (projr (fst (change_address self n w)))) = device self
     \<and> trace (snd (write_register8 (snd (projr (fst (change_address self n w)))) addr v
          (snd (change_address self n w)))) =
        trace (snd (change_address self n w)) @
         [Write (device_address (device self)) [word_of_int addr, word_of_int v]]"
  by (simp add: change_address_keeps_binding [OF assms] write_register8_def run_simps
      del: fun_upd_apply split: option.split)

text \<open>A Twist at \<open>0x3F\<close>, nothing at 64.\<close>

theorem change_address_failed_rebind_keeps_old_binding_witness:
  "8 \<le> (64::int) \<and> (64::int) \<le> 119
   \<and> peripherals (bench [0x3F \<mapsto> fresh (\<lambda>_. 0)]) (device_address (device (twist_at 0x3F)))
       = Some (fresh (\<lambda>_. 0))
   \<and> peripherals (bench [0x3F \<mapsto> fresh (\<lambda>_. 0)]) 64 = None
   \<and> trace (snd (change_address (twist_at 0x3F) 64 (bench [0x3F \<mapsto> fresh (\<lambda>_. 0)])))
       = [Write 0x3F [0x18, 64], Sleep 1, Probe 64]
   \<and> device (snd (projr (fst (change_address (twist_at 0x3F) 64 (bench [0x3F \<mapsto> fresh (\<lambda>_. 0)])))))
       = \<lparr>bus = 0, device_address = 0x3F\<rparr>"
proof -
  have h: "peripherals (bench [0x3F \<mapsto> fresh (\<lambda>_. 0)]) (device_address (device (twist_at 0x3F)))
      = Some (fresh (\<lambda>_. 0))"
    and g: "peripherals (bench [0x3F \<mapsto> fresh (\<lambda>_. 0)]) 64 = None"
    by (simp_all add: bench_def twist_at_def)
  have r: "8 \<le> (64::int)" "(64::int) \<le> 119" by simp_all
  from change_address_failed_rebind_keeps_old_binding [OF r h g, of 0 0] h g show ?thesis
    by (simp add: twist_at_def bench_def)
qed

section \<open>Reading the motion accessory\<close>











end
